theory Spec2Isabelle
  imports Complex_Main
begin

section \<open>Python values, objects and exceptions\<close>

text \<open>
  The functions of \<^verbatim>\<open>drag_and_drop_v2/utils.py\<close> receive JSON-like data: zone
  records and item states read back from the block's stored fields. A value is either
  immediate (\<^verbatim>\<open>None\<close>, a bool, an int, a string) or a reference to an object in the
  store. The objects are the containers the module handles: dicts (keyed by strings,
  as JSON objects are), lists and tuples. Keeping containers behind references is what
  lets the model tell a mutation of the caller's dict from a mutation of a copy.
\<close>

datatype pyval = PNone | PBool bool | PInt int | PStr string | PRef nat

datatype pyobj =
    ODict "string \<rightharpoonup> pyval"
  | OList "pyval list"
  | OTuple "pyval list"

text \<open>
  The exceptions the modelled operations raise. \<open>NoSuchObject\<close> is not a Python
  exception: it is the model's answer to a reference that points outside the store,
  which a running interpreter never produces.
\<close>

datatype pyerr = AttributeError | TypeError | IndexError | KeyError | ValueError | NoSuchObject

type_synonym heap = "pyobj list"

definition heap_lookup :: "heap \<Rightarrow> nat \<Rightarrow> pyobj option" where
  "heap_lookup h a = (if a < length h then Some (h ! a) else None)"

definition heap_alloc :: "heap \<Rightarrow> pyobj \<Rightarrow> heap \<times> nat" where
  "heap_alloc h ob = (h @ [ob], length h)"

definition heap_store :: "heap \<Rightarrow> nat \<Rightarrow> pyobj \<Rightarrow> heap" where
  "heap_store h a ob = h[a := ob]"


section \<open>Feedback messages\<close>

text \<open>
  \<^verbatim>\<open>
  def ngettext_fallback(text_singular, text_plural, number):
      if number == 1:
          return text_singular
      else:
          return text_plural
  \<close>
\<close>

definition ngettext_fallback :: "string \<Rightarrow> string \<Rightarrow> int \<Rightarrow> string" where
  "ngettext_fallback text_singular text_plural number =
     (if number = 1 then text_singular else text_plural)"

text \<open>\<^verbatim>\<open>str(number)\<close> of a Python int: the decimal digits, with a leading minus sign.\<close>

definition digit_char :: "nat \<Rightarrow> char" where
  "digit_char d = ''0123456789'' ! d"

fun str_nat :: "nat \<Rightarrow> string" where
  "str_nat n = (if n < 10 then [digit_char n] else str_nat (n div 10) @ [digit_char (n mod 10)])"

declare str_nat.simps [simp del]

definition str_int :: "int \<Rightarrow> string" where
  "str_int i = (if i < 0 then CHR ''-'' # str_nat (nat (- i)) else str_nat (nat i))"

text \<open>
  A replacement field whose name is empty or all digits refers to a positional argument
  of \<^verbatim>\<open>format\<close>, any other name to a keyword argument.
\<close>

definition positional_field :: "string \<Rightarrow> bool" where
  "positional_field name = list_all (\<lambda>c. c \<in> set ''0123456789'') name"

text \<open>
  \<^verbatim>\<open>template.format(**kwargs)\<close>, for the replacement-field syntax the templates of this
  module use: \<^verbatim>\<open>{name}\<close> is replaced by the keyword argument of that name (KeyError
  when there is none), \<^verbatim>\<open>{{\<close> and \<^verbatim>\<open>}}\<close> stand for a single brace, and an unmatched
  brace is a ValueError. A field that is empty or all digits (\<^verbatim>\<open>{}\<close>, \<^verbatim>\<open>{0}\<close>) asks for
  a positional argument; the call passes none, so it is an IndexError. Conversions and
  format specifications inside a field are not modelled; no template here has one.
\<close>

fun format_text :: "(string \<rightharpoonup> string) \<Rightarrow> string \<Rightarrow> pyerr + string"
  and format_field :: "(string \<rightharpoonup> string) \<Rightarrow> string \<Rightarrow> string \<Rightarrow> pyerr + string"
where
  "format_text kw [] = Inr []"
| "format_text kw (c # cs) =
     (if c = CHR ''{'' then
        (case cs of
           [] \<Rightarrow> Inl ValueError
         | d # ds \<Rightarrow>
             if d = CHR ''{'' then map_sum id ((#) CHR ''{'') (format_text kw ds)
             else format_field kw [] cs)
      else if c = CHR ''}'' then
        (case cs of
           [] \<Rightarrow> Inl ValueError
         | d # ds \<Rightarrow>
             if d = CHR ''}'' then map_sum id ((#) CHR ''}'') (format_text kw ds)
             else Inl ValueError)
      else map_sum id ((#) c) (format_text kw cs))"
| "format_field kw name [] = Inl ValueError"
| "format_field kw name (c # cs) =
     (if c = CHR ''}'' then
        (if positional_field (rev name) then Inl IndexError
         else
           (case kw (rev name) of
              None \<Rightarrow> Inl KeyError
            | Some s \<Rightarrow> map_sum id ((@) s) (format_text kw cs)))
      else format_field kw (c # name) cs)"

text \<open>
  \<^verbatim>\<open>
  @staticmethod
  def correctly_placed(number, ngettext=ngettext_fallback):
      return ngettext(
          'Correctly placed {correct_count} item.',
          'Correctly placed {correct_count} items.',
          number
      ).format(correct_count=number)
  \<close>
  and likewise \<^verbatim>\<open>misplaced\<close> (field \<^verbatim>\<open>misplaced_count\<close>) and \<^verbatim>\<open>not_placed\<close>
  (field \<^verbatim>\<open>missing_count\<close>). The translation function is a parameter, as in the source,
  whose default is \<^verbatim>\<open>ngettext_fallback\<close>.
\<close>

definition correctly_placed :: "int \<Rightarrow> (string \<Rightarrow> string \<Rightarrow> int \<Rightarrow> string) \<Rightarrow> pyerr + string" where
  "correctly_placed number ngettext =
     format_text [''correct_count'' \<mapsto> str_int number]
       (ngettext ''Correctly placed {correct_count} item.''
                 ''Correctly placed {correct_count} items.''
                 number)"

definition misplaced :: "int \<Rightarrow> (string \<Rightarrow> string \<Rightarrow> int \<Rightarrow> string) \<Rightarrow> pyerr + string" where
  "misplaced number ngettext =
     format_text [''misplaced_count'' \<mapsto> str_int number]
       (ngettext ''Misplaced {misplaced_count} item. Misplaced item was returned to item bank.''
                 ''Misplaced {misplaced_count} items. Misplaced items were returned to item bank.''
                 number)"

definition not_placed :: "int \<Rightarrow> (string \<Rightarrow> string \<Rightarrow> int \<Rightarrow> string) \<Rightarrow> pyerr + string" where
  "not_placed number ngettext =
     format_text [''missing_count'' \<mapsto> str_int number]
       (ngettext ''Did not place {missing_count} required item.''
                 ''Did not place {missing_count} required items.''
                 number)"


section \<open>Operations on Python values\<close>

text \<open>
  A statement of the source either raises or completes, and either way leaves a store
  behind: a computation takes the store and returns the new store with \<open>Inl\<close> the
  exception raised or \<open>Inr\<close> the value. \<open>then_py\<close> sequences two computations, the
  second one skipped when the first raises.
\<close>

definition then_py ::
  "heap \<times> (pyerr + 'a) \<Rightarrow> (heap \<Rightarrow> 'a \<Rightarrow> heap \<times> (pyerr + 'b)) \<Rightarrow> heap \<times> (pyerr + 'b)" where
  "then_py r f = (case r of (h, Inl e) \<Rightarrow> (h, Inl e) | (h, Inr x) \<Rightarrow> f h x)"

text \<open>
  \<^verbatim>\<open>obj.copy()\<close>: a dict has the method, a tuple and the immediate values do not. A list
  has it from Python 3.3 on and lacks it on Python 2, so the interpreter's answer for
  lists is the parameter \<open>list_has_copy\<close>. The copy is shallow: a new object with the
  same entries.
\<close>

definition py_copy :: "bool \<Rightarrow> heap \<Rightarrow> pyval \<Rightarrow> heap \<times> (pyerr + pyval)" where
  "py_copy list_has_copy h obj =
     (case obj of
        PRef a \<Rightarrow>
          (case heap_lookup h a of
             None \<Rightarrow> (h, Inl NoSuchObject)
           | Some (ODict d) \<Rightarrow> (case heap_alloc h (ODict d) of (h', a') \<Rightarrow> (h', Inr (PRef a')))
           | Some (OList xs) \<Rightarrow>
               if list_has_copy
               then (case heap_alloc h (OList xs) of (h', a') \<Rightarrow> (h', Inr (PRef a')))
               else (h, Inl AttributeError)
           | Some (OTuple xs) \<Rightarrow> (h, Inl AttributeError))
      | _ \<Rightarrow> (h, Inl AttributeError))"

text \<open>\<^verbatim>\<open>isinstance(item, dict)\<close>\<close>

definition py_isinstance_dict :: "heap \<Rightarrow> pyval \<Rightarrow> bool" where
  "py_isinstance_dict h obj =
     (case obj of
        PRef a \<Rightarrow> (case heap_lookup h a of Some (ODict d) \<Rightarrow> True | _ \<Rightarrow> False)
      | _ \<Rightarrow> False)"

text \<open>
  \<^verbatim>\<open>key in obj\<close> for a string \<^verbatim>\<open>key\<close>: key membership in a dict, element membership
  in a list or tuple, the substring test in a string, TypeError otherwise.
\<close>

fun str_contains :: "string \<Rightarrow> string \<Rightarrow> bool" where
  "str_contains sub [] = (sub = [])"
| "str_contains sub (c # cs) = (take (length sub) (c # cs) = sub \<or> str_contains sub cs)"

definition py_contains :: "heap \<Rightarrow> string \<Rightarrow> pyval \<Rightarrow> pyerr + bool" where
  "py_contains h key obj =
     (case obj of
        PRef a \<Rightarrow>
          (case heap_lookup h a of
             None \<Rightarrow> Inl NoSuchObject
           | Some (ODict d) \<Rightarrow> Inr (d key \<noteq> None)
           | Some (OList xs) \<Rightarrow> Inr (PStr key \<in> set xs)
           | Some (OTuple xs) \<Rightarrow> Inr (PStr key \<in> set xs))
      | PStr s \<Rightarrow> Inr (str_contains key s)
      | _ \<Rightarrow> Inl TypeError)"

text \<open>\<^verbatim>\<open>obj.get(key)\<close> and \<^verbatim>\<open>obj.get(key, None)\<close>: only a dict has the method.\<close>

definition py_get :: "heap \<Rightarrow> pyval \<Rightarrow> string \<Rightarrow> pyerr + pyval" where
  "py_get h obj key =
     (case obj of
        PRef a \<Rightarrow>
          (case heap_lookup h a of
             None \<Rightarrow> Inl NoSuchObject
           | Some (ODict d) \<Rightarrow> Inr (case d key of None \<Rightarrow> PNone | Some v \<Rightarrow> v)
           | Some (OList xs) \<Rightarrow> Inl AttributeError
           | Some (OTuple xs) \<Rightarrow> Inl AttributeError)
      | _ \<Rightarrow> Inl AttributeError)"

text \<open>
  \<^verbatim>\<open>obj[key] = value\<close> for a string \<^verbatim>\<open>key\<close>: updates a dict in place; a list takes
  integer indices only, and tuples, strings and the other values take no item assignment.
\<close>

definition py_setitem :: "heap \<Rightarrow> pyval \<Rightarrow> string \<Rightarrow> pyval \<Rightarrow> heap \<times> (pyerr + unit)" where
  "py_setitem h obj key v =
     (case obj of
        PRef a \<Rightarrow>
          (case heap_lookup h a of
             None \<Rightarrow> (h, Inl NoSuchObject)
           | Some (ODict d) \<Rightarrow> (heap_store h a (ODict (d(key \<mapsto> v))), Inr ())
           | Some (OList xs) \<Rightarrow> (h, Inl TypeError)
           | Some (OTuple xs) \<Rightarrow> (h, Inl TypeError))
      | _ \<Rightarrow> (h, Inl TypeError))"

text \<open>
  \<^verbatim>\<open>obj.pop(key, None)\<close>: removes the key from a dict in place and returns its value,
  or None when the key is absent. \<^verbatim>\<open>list.pop\<close> takes at most one argument (TypeError);
  nothing else has the method.
\<close>

definition py_pop :: "heap \<Rightarrow> pyval \<Rightarrow> string \<Rightarrow> heap \<times> (pyerr + pyval)" where
  "py_pop h obj key =
     (case obj of
        PRef a \<Rightarrow>
          (case heap_lookup h a of
             None \<Rightarrow> (h, Inl NoSuchObject)
           | Some (ODict d) \<Rightarrow>
               (heap_store h a (ODict (d(key := None))),
                Inr (case d key of None \<Rightarrow> PNone | Some v \<Rightarrow> v))
           | Some (OList xs) \<Rightarrow> (h, Inl TypeError)
           | Some (OTuple xs) \<Rightarrow> (h, Inl AttributeError))
      | _ \<Rightarrow> (h, Inl AttributeError))"

text \<open>
  \<^verbatim>\<open>obj[i]\<close> for the literal indices 0 and 1 of the source: the element of a list or
  tuple, the one-character string of a string, IndexError out of range. A dict of this
  model has string keys only, so an integer key is a KeyError.
\<close>

definition py_getitem :: "heap \<Rightarrow> pyval \<Rightarrow> nat \<Rightarrow> pyerr + pyval" where
  "py_getitem h obj i =
     (case obj of
        PRef a \<Rightarrow>
          (case heap_lookup h a of
             None \<Rightarrow> Inl NoSuchObject
           | Some (ODict d) \<Rightarrow> Inl KeyError
           | Some (OList xs) \<Rightarrow> if i < length xs then Inr (xs ! i) else Inl IndexError
           | Some (OTuple xs) \<Rightarrow> if i < length xs then Inr (xs ! i) else Inl IndexError)
      | PStr s \<Rightarrow> if i < length s then Inr (PStr [s ! i]) else Inl IndexError
      | _ \<Rightarrow> Inl TypeError)"


section \<open>State migrations\<close>

text \<open>
  \<^verbatim>\<open>
  class Constants(object):
      ALLOWED_ZONE_ALIGNMENTS = ['left', 'right', 'center']
      DEFAULT_ZONE_ALIGNMENT = 'center'
  \<close>
\<close>

definition ALLOWED_ZONE_ALIGNMENTS :: "string list" where
  "ALLOWED_ZONE_ALIGNMENTS = [''left'', ''right'', ''center'']"

definition DEFAULT_ZONE_ALIGNMENT :: string where
  "DEFAULT_ZONE_ALIGNMENT = ''center''"

text \<open>
  \<^verbatim>\<open>
  def _zone_v1_to_v2(cls, zone):
      if "uid" not in zone:
          zone["uid"] = zone.get("title")
      zone.pop("id", None)
      zone.pop("index", None)
      return zone
  \<close>
  The right-hand side \<^verbatim>\<open>zone.get("title")\<close> is evaluated before the assignment.
\<close>

definition zone_v1_to_v2 :: "heap \<Rightarrow> pyval \<Rightarrow> heap \<times> (pyerr + pyval)" where
  "zone_v1_to_v2 h zone =
     then_py (h, py_contains h ''uid'' zone) (\<lambda>h has_uid.
     then_py (if \<not> has_uid
              then then_py (h, py_get h zone ''title'') (\<lambda>h title. py_setitem h zone ''uid'' title)
              else (h, Inr ())) (\<lambda>h _.
     then_py (py_pop h zone ''id'') (\<lambda>h _.
     then_py (py_pop h zone ''index'') (\<lambda>h _.
     (h, Inr zone)))))"

text \<open>
  \<^verbatim>\<open>
  def _zone_v2_to_v2p1(cls, zone):
      if zone.get('align', None) not in Constants.ALLOWED_ZONE_ALIGNMENTS:
          zone['align'] = Constants.DEFAULT_ZONE_ALIGNMENT
      return zone
  \<close>
  Membership in the list of allowed alignments compares with \<^verbatim>\<open>==\<close>, which only a
  string with the same characters satisfies.
\<close>

definition zone_v2_to_v2p1 :: "heap \<Rightarrow> pyval \<Rightarrow> heap \<times> (pyerr + pyval)" where
  "zone_v2_to_v2p1 h zone =
     then_py (h, py_get h zone ''align'') (\<lambda>h align.
     then_py (if align \<notin> set (map PStr ALLOWED_ZONE_ALIGNMENTS)
              then py_setitem h zone ''align'' (PStr DEFAULT_ZONE_ALIGNMENT)
              else (h, Inr ())) (\<lambda>h _.
     (h, Inr zone)))"

text \<open>
  \<^verbatim>\<open>
  def _item_state_v1_to_v1p5(cls, item):
      if isinstance(item, dict):
          return item
      else:
          return {'top': item[0], 'left': item[1]}
  \<close>
\<close>

definition item_state_v1_to_v1p5 :: "heap \<Rightarrow> pyval \<Rightarrow> heap \<times> (pyerr + pyval)" where
  "item_state_v1_to_v1p5 h item =
     (if py_isinstance_dict h item then (h, Inr item)
      else
        then_py (h, py_getitem h item 0) (\<lambda>h top.
        then_py (h, py_getitem h item 1) (\<lambda>h left.
        (case heap_alloc h (ODict [''top'' \<mapsto> top, ''left'' \<mapsto> left]) of
           (h', a) \<Rightarrow> (h', Inr (PRef a))))))"

text \<open>
  \<^verbatim>\<open>
  def _item_state_v1p5_to_v2(cls, item):
      # Conversion can't be made as parent dimensions are unknown to python - converted in JS
      return item
  \<close>
\<close>

definition item_state_v1p5_to_v2 :: "heap \<Rightarrow> pyval \<Rightarrow> heap \<times> (pyerr + pyval)" where
  "item_state_v1p5_to_v2 h item = (h, Inr item)"

text \<open>
  \<^verbatim>\<open>
  def _item_state_v2_to_v2p1(cls, item):
      attributes_to_remove = ['x_percent', 'y_percent', 'left', 'top', 'absolute']
      for attribute in attributes_to_remove:
          del[attribute]
      return item
  \<close>
  The statement in the loop body is \<^verbatim>\<open>del [attribute]\<close>: the target of \<^verbatim>\<open>del\<close> is a
  bracketed target list whose one target is the name \<^verbatim>\<open>attribute\<close>, so it unbinds the
  loop variable. Neither \<^verbatim>\<open>item\<close> nor the store occurs in it. The model keeps the loop
  variable as the local state of the loop: \<open>Some\<close> the string it is bound to, \<open>None\<close>
  when unbound.
\<close>

definition attributes_to_remove :: "string list" where
  "attributes_to_remove = [''x_percent'', ''y_percent'', ''left'', ''top'', ''absolute'']"

fun del_attribute_loop :: "heap \<Rightarrow> pyval \<Rightarrow> string option \<Rightarrow> string list \<Rightarrow> heap \<times> string option" where
  "del_attribute_loop h item attribute [] = (h, attribute)"
| "del_attribute_loop h item attribute (x # xs) =
     (let attribute = Some x;
          attribute = (None :: string option)
      in del_attribute_loop h item attribute xs)"

definition item_state_v2_to_v2p1 :: "heap \<Rightarrow> pyval \<Rightarrow> heap \<times> (pyerr + pyval)" where
  "item_state_v2_to_v2p1 h item =
     (case del_attribute_loop h item None attributes_to_remove of
        (h', attribute) \<Rightarrow> (h', Inr item))"

text \<open>
  \<^verbatim>\<open>
  def _apply_migration(cls, obj, migrations):
      tmp = obj.copy()
      for method in migrations:
          tmp = method(tmp)
      return tmp
  \<close>
\<close>

fun run_migrations ::
  "heap \<Rightarrow> pyval \<Rightarrow> (heap \<Rightarrow> pyval \<Rightarrow> heap \<times> (pyerr + pyval)) list \<Rightarrow> heap \<times> (pyerr + pyval)" where
  "run_migrations h tmp [] = (h, Inr tmp)"
| "run_migrations h tmp (method # migrations) =
     (case method h tmp of
        (h', Inl e) \<Rightarrow> (h', Inl e)
      | (h', Inr tmp') \<Rightarrow> run_migrations h' tmp' migrations)"

definition apply_migration ::
  "bool \<Rightarrow> heap \<Rightarrow> pyval \<Rightarrow> (heap \<Rightarrow> pyval \<Rightarrow> heap \<times> (pyerr + pyval)) list \<Rightarrow> heap \<times> (pyerr + pyval)" where
  "apply_migration list_has_copy h obj migrations =
     then_py (py_copy list_has_copy h obj) (\<lambda>h tmp. run_migrations h tmp migrations)"

text \<open>
  \<^verbatim>\<open>
  def apply_zone_migrations(cls, zone):
      migrations = (cls._zone_v1_to_v2, cls._zone_v2_to_v2p1)
      return cls._apply_migration(zone, migrations)

  def apply_item_state_migrations(cls, item_state):
      migrations = (cls._item_state_v1_to_v1p5, cls._item_state_v1p5_to_v2, cls._item_state_v2_to_v2p1)
      return cls._apply_migration(item_state, migrations)
  \<close>
\<close>

definition apply_zone_migrations :: "bool \<Rightarrow> heap \<Rightarrow> pyval \<Rightarrow> heap \<times> (pyerr + pyval)" where
  "apply_zone_migrations list_has_copy h zone =
     apply_migration list_has_copy h zone [zone_v1_to_v2, zone_v2_to_v2p1]"

definition apply_item_state_migrations :: "bool \<Rightarrow> heap \<Rightarrow> pyval \<Rightarrow> heap \<times> (pyerr + pyval)" where
  "apply_item_state_migrations list_has_copy h item_state =
     apply_migration list_has_copy h item_state
       [item_state_v1_to_v1p5, item_state_v1p5_to_v2, item_state_v2_to_v2p1]"

text \<open>
  Reading a result: \<open>dict_at h v\<close> is the dict that the value \<open>v\<close> refers to in the store
  \<open>h\<close>, if it refers to one. Two dicts with the same \<open>dict_at\<close> in the same store have
  the same keys and, under each key, the very same value or reference, so Python's
  \<^verbatim>\<open>==\<close> holds between them.
\<close>

definition dict_at :: "heap \<Rightarrow> pyval \<Rightarrow> (string \<rightharpoonup> pyval) option" where
  "dict_at h v =
     (case v of
        PRef a \<Rightarrow> (case heap_lookup h a of Some (ODict d) \<Rightarrow> Some d | _ \<Rightarrow> None)
      | _ \<Rightarrow> None)"

text \<open>
  What the two zone migrations do to the entries of a dict, written out once so that the
  lemmas about the store can name the resulting dict.
\<close>

definition zone_v1_to_v2_entries :: "(string \<rightharpoonup> pyval) \<Rightarrow> (string \<rightharpoonup> pyval)" where
  "zone_v1_to_v2_entries d =
     (if d ''uid'' = None
      then d(''uid'' \<mapsto> (case d ''title'' of None \<Rightarrow> PNone | Some v \<Rightarrow> v))
      else d)
       (''id'' := None, ''index'' := None)"

definition zone_v2_to_v2p1_entries :: "(string \<rightharpoonup> pyval) \<Rightarrow> (string \<rightharpoonup> pyval)" where
  "zone_v2_to_v2p1_entries d =
     (if (case d ''align'' of None \<Rightarrow> PNone | Some v \<Rightarrow> v)
           \<in> {PStr ''left'', PStr ''right'', PStr ''center''}
      then d
      else d(''align'' \<mapsto> PStr ''center''))"


section \<open>Stores used in the examples\<close>

text \<open>
  The legacy zone of \<^verbatim>\<open>_zone_v1_to_v2\<close>'s docstring with the alignment of
  \<^verbatim>\<open>_zone_v2_to_v2p1\<close>'s:
  \<^verbatim>\<open>{'id': 1, 'index': 2, 'title': "Zone", 'align': "none"}\<close>.
\<close>

definition legacy_zone :: "string \<rightharpoonup> pyval" where
  "legacy_zone =
     [''id'' \<mapsto> PInt 1, ''index'' \<mapsto> PInt 2, ''title'' \<mapsto> PStr ''Zone'', ''align'' \<mapsto> PStr ''none'']"

text \<open>
  The first input of \<^verbatim>\<open>_item_state_v2_to_v2p1\<close>'s docstring:
  \<^verbatim>\<open>{'zone': 'Zone', 'correct': True, 'top': '100px', 'left': '120px', 'absolute': True}\<close>.
\<close>

definition legacy_item_state :: "string \<rightharpoonup> pyval" where
  "legacy_item_state =
     [''zone'' \<mapsto> PStr ''Zone'', ''correct'' \<mapsto> PBool True, ''top'' \<mapsto> PStr ''100px'',
      ''left'' \<mapsto> PStr ''120px'', ''absolute'' \<mapsto> PBool True]"

text \<open>The input of \<^verbatim>\<open>_item_state_v1_to_v1p5\<close>'s docstring: \<^verbatim>\<open>('100px', '120px')\<close>.\<close>

definition legacy_pair :: "pyval list" where
  "legacy_pair = [PStr ''100px'', PStr ''120px'']"


section \<open>Placement engine, interaction controller and event emitter\<close>

text \<open>
  The engine that places items, the controller that turns gestures and key presses into
  placement commands and the emitter of analytics events live in the block's request
  handlers and in its browser client. Neither is among the source files; only their
  integration tests (\<^verbatim>\<open>tests/integration/test_interaction.py\<close>) are. The definitions
  of this section follow the specification, sections 3, 4.2, 4.3 and 4.5.
\<close>

text \<open>
  Modelled from the spec: the configuration of a zone (section 3, Zone): \<^verbatim>\<open>uid\<close>,
  \<^verbatim>\<open>title\<close> and the optional capacity \<^verbatim>\<open>maxItems\<close>, where 0 or absent means
  unlimited. Alignment and geometry play no part in placement.
\<close>

record zone_config =
  uid :: string
  title :: string
  maxItems :: "nat option"

text \<open>
  Modelled from the spec: the configuration of an item (section 3, Item): its identity
  and the zones it may correctly occupy; an empty list makes it a decoy.
\<close>

record item_config =
  item_id :: nat
  validZoneIds :: "string list"

text \<open>
  Modelled from the spec: the engine's state (section 3, ItemPlacementState and
  Ownership). \<open>item_zone e i\<close> is the \<^verbatim>\<open>zoneId\<close> of item \<open>i\<close>: \<open>None\<close> is \<^verbatim>\<open>InBank\<close>,
  \<open>Some z\<close> is \<^verbatim>\<open>Placed(z)\<close>.
\<close>

record engine =
  zones :: "zone_config list"
  items :: "item_config list"
  item_zone :: "nat \<Rightarrow> string option"

text \<open>Modelled from the spec: the reasons of a rejected placement (section 4.2).\<close>

datatype rejection = CapacityExceeded

text \<open>
  Modelled from the spec: the failure of a command that names an item or a zone the
  exercise does not have (section 7, \<^verbatim>\<open>UnknownEntity\<close>).
\<close>

datatype engine_error = UnknownEntity

text \<open>
  Modelled from the spec: the placement verdict (section 4.2):
  \<^verbatim>\<open>{accepted, isCorrect, zoneId, reasonIfRejected}\<close>.
\<close>

record verdict =
  accepted :: bool
  isCorrect :: bool
  zoneId :: "string option"
  reasonIfRejected :: "rejection option"

text \<open>
  Modelled from the spec: the known item an \<^verbatim>\<open>itemId\<close> refers to, if any (section 4.2,
  Preconditions of \<^verbatim>\<open>placeItem\<close>).
\<close>

definition find_item :: "engine \<Rightarrow> nat \<Rightarrow> item_config option" where
  "find_item e itemId = find (\<lambda>i. item_id i = itemId) (items e)"

text \<open>
  Modelled from the spec: the known zone a \<^verbatim>\<open>targetZoneId\<close> refers to, if any (section
  4.2, Preconditions of \<^verbatim>\<open>placeItem\<close>); zones are identified by their \<^verbatim>\<open>uid\<close>.
\<close>

definition find_zone :: "engine \<Rightarrow> string \<Rightarrow> zone_config option" where
  "find_zone e z = find (\<lambda>c. uid c = z) (zones e)"

text \<open>
  Modelled from the spec: the items counted by the capacity check (section 4.2), "the
  number of items currently with \<^verbatim>\<open>zoneId == targetZoneId\<close> (excluding the moving item
  itself)".
\<close>

definition occupants :: "engine \<Rightarrow> string \<Rightarrow> nat \<Rightarrow> item_config list" where
  "occupants e z itemId =
     filter (\<lambda>i. item_id i \<noteq> itemId \<and> item_zone e (item_id i) = Some z) (items e)"

text \<open>
  Modelled from the spec: the capacity check (section 4.2): the zone has a finite
  \<^verbatim>\<open>maxItems\<close> (present and not 0) and the occupants are already at capacity.
\<close>

definition at_capacity :: "engine \<Rightarrow> zone_config \<Rightarrow> nat \<Rightarrow> bool" where
  "at_capacity e c itemId =
     (case maxItems c of
        None \<Rightarrow> False
      | Some m \<Rightarrow> m \<noteq> 0 \<and> m \<le> length (occupants e (uid c) itemId))"

text \<open>
  Modelled from the spec: \<^verbatim>\<open>placeItem(itemId, targetZoneId | null)\<close> (section 4.2). An
  unknown item or zone fails the command. A placement into a zone at capacity is
  rejected: the item is forced to \<^verbatim>\<open>InBank\<close> and the verdict carries
  \<^verbatim>\<open>CapacityExceeded\<close>. Otherwise the item's \<^verbatim>\<open>zoneId\<close> is set to the target (cleared for
  a return to the bank) and \<^verbatim>\<open>isCorrect\<close> is recomputed as
  \<^verbatim>\<open>targetZoneId != null && targetZoneId in validZoneIds(item)\<close>.
\<close>

definition placeItem :: "engine \<Rightarrow> nat \<Rightarrow> string option \<Rightarrow> engine_error + engine \<times> verdict" where
  "placeItem e itemId target =
     (case find_item e itemId of
        None \<Rightarrow> Inl UnknownEntity
      | Some it \<Rightarrow>
          (case target of
             None \<Rightarrow>
               Inr (e\<lparr>item_zone := (item_zone e)(itemId := None)\<rparr>,
                    \<lparr>accepted = True, isCorrect = False, zoneId = None,
                     reasonIfRejected = None\<rparr>)
           | Some z \<Rightarrow>
               (case find_zone e z of
                  None \<Rightarrow> Inl UnknownEntity
                | Some c \<Rightarrow>
                    if at_capacity e c itemId
                    then Inr (e\<lparr>item_zone := (item_zone e)(itemId := None)\<rparr>,
                              \<lparr>accepted = False, isCorrect = False, zoneId = None,
                               reasonIfRejected = Some CapacityExceeded\<rparr>)
                    else Inr (e\<lparr>item_zone := (item_zone e)(itemId := Some z)\<rparr>,
                              \<lparr>accepted = True, isCorrect = (z \<in> set (validZoneIds it)),
                               zoneId = Some z, reasonIfRejected = None\<rparr>))))"

text \<open>
  Modelled from the spec: the two input state machines of the Interaction Controller
  (section 4.3): pointer-drag \<^verbatim>\<open>Idle -> Dragging(itemId) -> Idle\<close> and keyboard
  \<^verbatim>\<open>Idle -> Grabbed(itemId) -> Idle\<close>.
\<close>

datatype controller = Idle | Dragging nat | Grabbed nat

text \<open>
  Modelled from the spec: the drop of a pointer drag (section 4.3): it returns to
  \<^verbatim>\<open>Idle\<close> and issues \<^verbatim>\<open>placeItem(itemId, zoneUnderPointer | null)\<close>. In any other
  controller state there is no drag to end and no command is issued.
\<close>

fun pointer_drop ::
  "controller \<Rightarrow> engine \<Rightarrow> string option \<Rightarrow> controller \<times> (engine_error + engine \<times> verdict) option" where
  "pointer_drop (Dragging itemId) e zoneUnderPointer = (Idle, Some (placeItem e itemId zoneUnderPointer))"
| "pointer_drop c e zoneUnderPointer = (c, None)"

text \<open>
  Modelled from the spec: the action key pressed while an item is grabbed and a zone or
  the bank has focus (section 4.3): it issues \<^verbatim>\<open>placeItem(itemId, focusedZoneId | null)\<close>
  and returns to \<^verbatim>\<open>Idle\<close>. In any other controller state no command is issued.
\<close>

fun keyboard_action ::
  "controller \<Rightarrow> engine \<Rightarrow> string option \<Rightarrow> controller \<times> (engine_error + engine \<times> verdict) option" where
  "keyboard_action (Grabbed itemId) e focusedZoneId = (Idle, Some (placeItem e itemId focusedZoneId))"
| "keyboard_action c e focusedZoneId = (c, None)"

text \<open>
  Modelled from the spec: \<^verbatim>\<open>required\<close> of ExerciseProgress (section 3), the count of
  items with a non-empty \<^verbatim>\<open>validZoneIds\<close>.
\<close>

definition required :: "engine \<Rightarrow> nat" where
  "required e = length (filter (\<lambda>i. validZoneIds i \<noteq> []) (items e))"

text \<open>
  Modelled from the spec: \<^verbatim>\<open>correctlyPlaced\<close> of ExerciseProgress (section 3), the count
  of items whose \<^verbatim>\<open>zoneId\<close> is non-null and one of their \<^verbatim>\<open>validZoneIds\<close>.
\<close>

definition correctlyPlaced :: "engine \<Rightarrow> nat" where
  "correctlyPlaced e =
     length (filter (\<lambda>i. case item_zone e (item_id i) of
                            None \<Rightarrow> False
                          | Some z \<Rightarrow> z \<in> set (validZoneIds i)) (items e))"

text \<open>
  Modelled from the spec: \<^verbatim>\<open>score\<close> of ExerciseProgress (section 3):
  \<^verbatim>\<open>correctlyPlaced / required\<close>, 0 if \<^verbatim>\<open>required == 0\<close>, clamped to \<^verbatim>\<open>[0,1]\<close>.
\<close>

definition score :: "engine \<Rightarrow> rat" where
  "score e =
     (if required e = 0 then 0
      else min 1 (max 0 (of_nat (correctlyPlaced e) / of_nat (required e))))"

text \<open>
  Modelled from the spec: the event taxonomy (section 4.5) with the fields each event
  carries: \<^verbatim>\<open>loaded\<close>; \<^verbatim>\<open>item.picked_up\<close> (the item); \<^verbatim>\<open>grade\<close> (the score);
  \<^verbatim>\<open>item.dropped\<close> (\<^verbatim>\<open>is_correct\<close>, \<^verbatim>\<open>item_id\<close>, \<^verbatim>\<open>location\<close>, \<^verbatim>\<open>location_id\<close>);
  \<^verbatim>\<open>feedback.opened\<close> (content, \<^verbatim>\<open>truncated\<close>); \<^verbatim>\<open>feedback.closed\<close> (\<^verbatim>\<open>manually\<close>).
\<close>

datatype event =
    Loaded
  | ItemPickedUp nat
  | Grade rat
  | ItemDropped bool nat string string
  | FeedbackOpened string bool
  | FeedbackClosed bool

text \<open>
  Modelled from the spec: the engine together with what the emitter needs (section 4.5):
  the events published so far, oldest first, the content of the feedback that is open,
  and the display-length threshold above which a feedback content counts as truncated.
\<close>

record session =
  session_engine :: engine
  open_feedback :: "string option"
  truncate_above :: nat
  published :: "event list"

text \<open>Modelled from the spec: engine initialization publishes \<^verbatim>\<open>loaded\<close>, once (section 4.5).\<close>

definition load_session :: "engine \<Rightarrow> nat \<Rightarrow> session" where
  "load_session e threshold =
     \<lparr>session_engine = e, open_feedback = None, truncate_above = threshold, published = [Loaded]\<rparr>"

text \<open>Modelled from the spec: picking an item up publishes \<^verbatim>\<open>item.picked_up\<close> (section 4.5).\<close>

definition pick_up :: "session \<Rightarrow> nat \<Rightarrow> session" where
  "pick_up s itemId = s\<lparr>published := published s @ [ItemPickedUp itemId]\<rparr>"

text \<open>
  Modelled from the spec: dropping an item on a zone (sections 4.2 and 4.5). The command
  is \<^verbatim>\<open>placeItem\<close>; a failed command publishes nothing. Otherwise the emitter publishes
  \<^verbatim>\<open>grade\<close> if the computed score changed, then \<^verbatim>\<open>item.dropped\<close> with the verdict's
  \<^verbatim>\<open>isCorrect\<close>, the item, the zone's title as \<^verbatim>\<open>location\<close> and its uid as
  \<^verbatim>\<open>location_id\<close>, then \<^verbatim>\<open>feedback.opened\<close> with the message and whether it exceeds the
  threshold. The message is chosen by the feedback selection of section 4.2 and is an
  argument here.
\<close>

definition drop_on_zone :: "session \<Rightarrow> nat \<Rightarrow> string \<Rightarrow> string \<Rightarrow> engine_error + session" where
  "drop_on_zone s itemId z content =
     (case find_zone (session_engine s) z of
        None \<Rightarrow> Inl UnknownEntity
      | Some c \<Rightarrow>
          (case placeItem (session_engine s) itemId (Some z) of
             Inl err \<Rightarrow> Inl err
           | Inr (e', v) \<Rightarrow>
               Inr (s\<lparr>session_engine := e',
                      open_feedback := Some content,
                      published := published s
                        @ (if score e' \<noteq> score (session_engine s) then [Grade (score e')] else [])
                        @ [ItemDropped (isCorrect v) itemId (title c) (uid c)]
                        @ [FeedbackOpened content (truncate_above s < length content)]\<rparr>)))"

text \<open>
  Modelled from the spec: closing the open feedback publishes \<^verbatim>\<open>feedback.closed\<close> with
  \<^verbatim>\<open>manually\<close> true if a user dismissed it and false if it was dismissed automatically
  or replaced (section 4.5). With no feedback open there is nothing to close.
\<close>

definition close_feedback :: "session \<Rightarrow> bool \<Rightarrow> session" where
  "close_feedback s manually =
     (case open_feedback s of
        None \<Rightarrow> s
      | Some content \<Rightarrow>
          s\<lparr>open_feedback := None, published := published s @ [FeedbackClosed manually]\<rparr>)"

text \<open>
  Modelled from the spec: the exercise of the capacity scenario (section 8): zone \<^verbatim>\<open>"z"\<close> with
  \<^verbatim>\<open>maxItems = 2\<close> holding items 0 and 1, and item 2 in the bank.
\<close>

definition full_zone_engine :: engine where
  "full_zone_engine =
     \<lparr>zones = [\<lparr>uid = ''z'', title = ''Z'', maxItems = Some 2\<rparr>],
      items = [\<lparr>item_id = 0, validZoneIds = [''z'']\<rparr>,
               \<lparr>item_id = 1, validZoneIds = [''z'']\<rparr>,
               \<lparr>item_id = 2, validZoneIds = [''z'']\<rparr>],
      item_zone = (\<lambda>i. if i = 0 \<or> i = 1 then Some ''z'' else None)\<rparr>"

text \<open>
  Modelled from the spec: the exercise of the event scenario (section 8): item 0 with
  \<^verbatim>\<open>validZoneIds = ["top"]\<close>, in the bank.
\<close>

definition top_zone_engine :: engine where
  "top_zone_engine =
     \<lparr>zones = [\<lparr>uid = ''top'', title = ''The Top Zone'', maxItems = None\<rparr>],
      items = [\<lparr>item_id = 0, validZoneIds = [''top'']\<rparr>],
      item_zone = (\<lambda>i. None)\<rparr>"


section \<open>Feedback messages: singular and plural\<close>

text \<open>
  C9. For every integer \<open>n\<close>, \<^verbatim>\<open>correctly_placed(n)\<close>, \<^verbatim>\<open>misplaced(n)\<close> and
  \<^verbatim>\<open>not_placed(n)\<close>, called with the default translation function, return the singular
  template when \<open>n = 1\<close> and the plural template for every other \<open>n\<close>, with the decimal
  rendering of \<open>n\<close> in place of the count field. Being HOL functions of \<open>n\<close> alone, they
  return the same string for the same \<open>n\<close> and change no state.
\<close>

theorem feedback_messages_singular_plural:
  "correctly_placed n ngettext_fallback =
     Inr (if n = 1 then ''Correctly placed '' @ str_int n @ '' item.''
          else ''Correctly placed '' @ str_int n @ '' items.'')
   \<and> misplaced n ngettext_fallback =
     Inr (if n = 1
          then ''Misplaced '' @ str_int n @ '' item. Misplaced item was returned to item bank.''
          else ''Misplaced '' @ str_int n @ '' items. Misplaced items were returned to item bank.'')
   \<and> not_placed n ngettext_fallback =
     Inr (if n = 1 then ''Did not place '' @ str_int n @ '' required item.''
          else ''Did not place '' @ str_int n @ '' required items.'')"
  by (simp add: correctly_placed_def misplaced_def not_placed_def ngettext_fallback_def
      positional_field_def)

theorem feedback_messages_singular_plural_witness:
  "correctly_placed 1 ngettext_fallback = Inr ''Correctly placed 1 item.''
   \<and> misplaced 1 ngettext_fallback =
       Inr ''Misplaced 1 item. Misplaced item was returned to item bank.''
   \<and> not_placed 1 ngettext_fallback = Inr ''Did not place 1 required item.''
   \<and> correctly_placed 0 ngettext_fallback = Inr ''Correctly placed 0 items.''
   \<and> misplaced 12 ngettext_fallback =
       Inr ''Misplaced 12 items. Misplaced items were returned to item bank.''
   \<and> not_placed (- 1) ngettext_fallback = Inr ''Did not place -1 required items.''"
  using feedback_messages_singular_plural [of 1] feedback_messages_singular_plural [of 0]
    feedback_messages_singular_plural [of 12] feedback_messages_singular_plural [of "- 1"]
  by (simp add: str_int_def str_nat.simps digit_char_def)


section \<open>Migrations of a dict\<close>

lemma dict_atD: "dict_at h v = Some d \<Longrightarrow> \<exists>a. v = PRef a \<and> a < length h \<and> h ! a = ODict d"
  by (auto simp: dict_at_def heap_lookup_def
      split: pyval.splits option.splits pyobj.splits if_splits)

lemma dict_at_last: "dict_at (h @ [ODict d]) (PRef (length h)) = Some d"
  by (simp add: dict_at_def heap_lookup_def)

lemma dict_at_append: "dict_at h v = Some d \<Longrightarrow> dict_at (h @ [ob]) v = Some d"
  by (auto simp: dict_at_def heap_lookup_def nth_append
      split: pyval.splits option.splits pyobj.splits if_splits)

lemma copy_dict:
  "a < length h \<Longrightarrow> h ! a = ODict d \<Longrightarrow>
   py_copy lc h (PRef a) = (h @ [ODict d], Inr (PRef (length h)))"
  by (simp add: py_copy_def heap_lookup_def heap_alloc_def)

lemma zone_v1_to_v2_dict:
  "a < length h \<Longrightarrow> h ! a = ODict d \<Longrightarrow>
   zone_v1_to_v2 h (PRef a) = (h[a := ODict (zone_v1_to_v2_entries d)], Inr (PRef a))"
  by (simp add: zone_v1_to_v2_def zone_v1_to_v2_entries_def then_py_def py_contains_def
      py_get_def py_setitem_def py_pop_def heap_lookup_def heap_store_def)

lemma zone_v2_to_v2p1_dict:
  assumes "a < length h" "h ! a = ODict d"
  shows "zone_v2_to_v2p1 h (PRef a) = (h[a := ODict (zone_v2_to_v2p1_entries d)], Inr (PRef a))"
proof -
  have same: "h[a := ODict d] = h"
    using assms by (metis list_update_id)
  show ?thesis
    using assms same
    by (simp add: zone_v2_to_v2p1_def zone_v2_to_v2p1_entries_def then_py_def py_get_def
        py_setitem_def heap_lookup_def heap_store_def ALLOWED_ZONE_ALIGNMENTS_def
        DEFAULT_ZONE_ALIGNMENT_def)
qed

text \<open>The zone pipeline on a dict: the caller's store with one more object, the migrated copy.\<close>

lemma apply_zone_migrations_dict:
  assumes "dict_at h zone = Some d"
  shows "apply_zone_migrations lc h zone =
     (h @ [ODict (zone_v2_to_v2p1_entries (zone_v1_to_v2_entries d))], Inr (PRef (length h)))"
proof -
  from assms obtain a where a: "zone = PRef a" "a < length h" "h ! a = ODict d"
    using dict_atD by blast
  have 1: "zone_v1_to_v2 (h @ [ODict d]) (PRef (length h)) =
      (h @ [ODict (zone_v1_to_v2_entries d)], Inr (PRef (length h)))"
    using zone_v1_to_v2_dict [of "length h" "h @ [ODict d]" d] by simp
  have 2: "zone_v2_to_v2p1 (h @ [ODict (zone_v1_to_v2_entries d)]) (PRef (length h)) =
      (h @ [ODict (zone_v2_to_v2p1_entries (zone_v1_to_v2_entries d))], Inr (PRef (length h)))"
    using zone_v2_to_v2p1_dict
      [of "length h" "h @ [ODict (zone_v1_to_v2_entries d)]" "zone_v1_to_v2_entries d"]
    by simp
  show ?thesis
    by (simp add: apply_zone_migrations_def apply_migration_def a copy_dict then_py_def 1 2)
qed

lemma zone_entries_idempotent:
  "zone_v2_to_v2p1_entries (zone_v1_to_v2_entries
     (zone_v2_to_v2p1_entries (zone_v1_to_v2_entries d))) =
   zone_v2_to_v2p1_entries (zone_v1_to_v2_entries d)"
  by (auto simp: zone_v2_to_v2p1_entries_def zone_v1_to_v2_entries_def fun_eq_iff
      split: option.splits)

text \<open>The loop of \<^verbatim>\<open>_item_state_v2_to_v2p1\<close> changes its loop variable and nothing else.\<close>

lemma del_attribute_loop_store:
  "del_attribute_loop h item var xs = (h, if xs = [] then var else None)"
  by (induction xs arbitrary: var) auto

lemma item_state_v2_to_v2p1_returns_item: "item_state_v2_to_v2p1 h item = (h, Inr item)"
  by (simp add: item_state_v2_to_v2p1_def del_attribute_loop_store)

text \<open>The item-state pipeline on a dict: the caller's store with one more object, the copy.\<close>

lemma apply_item_state_migrations_dict:
  assumes "dict_at h item = Some d"
  shows "apply_item_state_migrations lc h item = (h @ [ODict d], Inr (PRef (length h)))"
proof -
  from assms obtain a where a: "item = PRef a" "a < length h" "h ! a = ODict d"
    using dict_atD by blast
  have "py_isinstance_dict (h @ [ODict d]) (PRef (length h))"
    by (simp add: py_isinstance_dict_def heap_lookup_def)
  then show ?thesis
    by (simp add: apply_item_state_migrations_def apply_migration_def a copy_dict then_py_def
        item_state_v1_to_v1p5_def item_state_v1p5_to_v2_def item_state_v2_to_v2p1_returns_item)
qed

lemma legacy_zone_store: "dict_at [ODict legacy_zone] (PRef 0) = Some legacy_zone"
  by (simp add: dict_at_def heap_lookup_def)

lemma legacy_item_state_store:
  "dict_at [ODict legacy_item_state] (PRef 0) = Some legacy_item_state"
  by (simp add: dict_at_def heap_lookup_def)


section \<open>Zone migration\<close>

text \<open>
  C4. For every legacy zone record without a \<^verbatim>\<open>uid\<close> key, \<^verbatim>\<open>apply_zone_migrations\<close>
  returns a dict whose \<^verbatim>\<open>uid\<close> is the value of \<^verbatim>\<open>title\<close> (\<^verbatim>\<open>None\<close> when there is no
  title, as \<^verbatim>\<open>zone.get("title")\<close> gives), without the keys \<^verbatim>\<open>id\<close> and \<^verbatim>\<open>index\<close>,
  whose \<^verbatim>\<open>align\<close> is the input's when that is one of left, right, center and
  \<^verbatim>\<open>"center"\<close> otherwise (a legacy \<^verbatim>\<open>"none"\<close> or a missing align included), and whose
  other keys are the input's. The witness is the zone
  \<^verbatim>\<open>{id:1, index:2, title:"Zone", align:"none"}\<close>.
\<close>

theorem zone_migration_legacy_zone:
  assumes "dict_at h zone = Some d" and "d ''uid'' = None"
  shows "\<exists>h' r d'.
     apply_zone_migrations lc h zone = (h', Inr r) \<and> dict_at h' r = Some d'
   \<and> d' ''uid'' = Some (case d ''title'' of None \<Rightarrow> PNone | Some t \<Rightarrow> t)
   \<and> d' ''id'' = None \<and> d' ''index'' = None
   \<and> d' ''align'' =
       (if d ''align'' \<in> {Some (PStr ''left''), Some (PStr ''right''), Some (PStr ''center'')}
        then d ''align'' else Some (PStr ''center''))
   \<and> (\<forall>k. k \<notin> {''uid'', ''id'', ''index'', ''align''} \<longrightarrow> d' k = d k)"
proof -
  let ?d' = "zone_v2_to_v2p1_entries (zone_v1_to_v2_entries d)"
  have run: "apply_zone_migrations lc h zone = (h @ [ODict ?d'], Inr (PRef (length h)))"
    using assms(1) by (rule apply_zone_migrations_dict)
  have uid: "?d' ''uid'' = Some (case d ''title'' of None \<Rightarrow> PNone | Some t \<Rightarrow> t)"
    using assms(2) by (simp add: zone_v2_to_v2p1_entries_def zone_v1_to_v2_entries_def)
  have gone: "?d' ''id'' = None \<and> ?d' ''index'' = None"
    by (simp add: zone_v2_to_v2p1_entries_def zone_v1_to_v2_entries_def)
  have align: "?d' ''align'' =
       (if d ''align'' \<in> {Some (PStr ''left''), Some (PStr ''right''), Some (PStr ''center'')}
        then d ''align'' else Some (PStr ''center''))"
    by (auto simp: zone_v2_to_v2p1_entries_def zone_v1_to_v2_entries_def split: option.splits)
  have rest: "\<forall>k. k \<notin> {''uid'', ''id'', ''index'', ''align''} \<longrightarrow> ?d' k = d k"
    by (simp add: zone_v2_to_v2p1_entries_def zone_v1_to_v2_entries_def)
  show ?thesis
    using run uid gone align rest dict_at_last by blast
qed

theorem zone_migration_legacy_zone_witness:
  "dict_at [ODict legacy_zone] (PRef 0) = Some legacy_zone \<and> legacy_zone ''uid'' = None
   \<and> (\<exists>h' r d'.
        apply_zone_migrations True [ODict legacy_zone] (PRef 0) = (h', Inr r)
      \<and> dict_at h' r = Some d'
      \<and> d' ''uid'' = Some (PStr ''Zone'') \<and> d' ''align'' = Some (PStr ''center'')
      \<and> d' ''id'' = None \<and> d' ''index'' = None \<and> d' ''title'' = Some (PStr ''Zone''))"
proof -
  have uid: "legacy_zone ''uid'' = None"
    by (simp add: legacy_zone_def)
  have title: "legacy_zone ''title'' = Some (PStr ''Zone'')"
    by (simp add: legacy_zone_def)
  have align: "legacy_zone ''align'' = Some (PStr ''none'')"
    by (simp add: legacy_zone_def)
  from zone_migration_legacy_zone [OF legacy_zone_store uid, of True]
  obtain h' r d' where run: "apply_zone_migrations True [ODict legacy_zone] (PRef 0) = (h', Inr r)"
    and at: "dict_at h' r = Some d'"
    and 1: "d' ''uid'' = Some (case legacy_zone ''title'' of None \<Rightarrow> PNone | Some t \<Rightarrow> t)"
    and 2: "d' ''id'' = None" "d' ''index'' = None"
    and 3: "d' ''align'' =
       (if legacy_zone ''align''
            \<in> {Some (PStr ''left''), Some (PStr ''right''), Some (PStr ''center'')}
        then legacy_zone ''align'' else Some (PStr ''center''))"
    and 4: "\<forall>k. k \<notin> {''uid'', ''id'', ''index'', ''align''} \<longrightarrow> d' k = legacy_zone k"
    by (elim exE conjE) (rule that, assumption+)
  have "d' ''uid'' = Some (PStr ''Zone'')"
    using 1 title by simp
  moreover have "d' ''align'' = Some (PStr ''center'')"
    using 3 align by simp
  moreover have "''title'' \<notin> {''uid'', ''id'', ''index'', ''align''}"
    by simp
  then have "d' ''title'' = Some (PStr ''Zone'')"
    using 4 title by metis
  ultimately have "\<exists>h' r d'.
        apply_zone_migrations True [ODict legacy_zone] (PRef 0) = (h', Inr r)
      \<and> dict_at h' r = Some d'
      \<and> d' ''uid'' = Some (PStr ''Zone'') \<and> d' ''align'' = Some (PStr ''center'')
      \<and> d' ''id'' = None \<and> d' ''index'' = None \<and> d' ''title'' = Some (PStr ''Zone'')"
    using run at 2 by blast
  then show ?thesis
    using legacy_zone_store uid by blast
qed

text \<open>
  C5. Zone migration is idempotent: for every zone record, migrating the result of
  \<^verbatim>\<open>apply_zone_migrations\<close> again succeeds and returns a dict with the same entries as
  the first result, both read in the final store, so the two compare equal.
\<close>

theorem zone_migration_idempotent:
  assumes "dict_at h zone = Some d"
  shows "\<exists>h1 r1 h2 r2 d1.
     apply_zone_migrations lc h zone = (h1, Inr r1)
   \<and> apply_zone_migrations lc h1 r1 = (h2, Inr r2)
   \<and> dict_at h2 r1 = Some d1 \<and> dict_at h2 r2 = Some d1"
proof -
  let ?d1 = "zone_v2_to_v2p1_entries (zone_v1_to_v2_entries d)"
  let ?h1 = "h @ [ODict ?d1]"
  let ?r1 = "PRef (length h)"
  have first: "apply_zone_migrations lc h zone = (?h1, Inr ?r1)"
    using assms by (rule apply_zone_migrations_dict)
  have at1: "dict_at ?h1 ?r1 = Some ?d1"
    by (rule dict_at_last)
  have second: "apply_zone_migrations lc ?h1 ?r1 = (?h1 @ [ODict ?d1], Inr (PRef (length ?h1)))"
    using apply_zone_migrations_dict [OF at1, of lc] by (simp only: zone_entries_idempotent)
  have "dict_at (?h1 @ [ODict ?d1]) ?r1 = Some ?d1"
    using at1 by (rule dict_at_append)
  moreover have "dict_at (?h1 @ [ODict ?d1]) (PRef (length ?h1)) = Some ?d1"
    by (rule dict_at_last)
  ultimately show ?thesis
    using first second by blast
qed

theorem zone_migration_idempotent_witness:
  "dict_at [ODict legacy_zone] (PRef 0) = Some legacy_zone
   \<and> (\<exists>h1 r1 h2 r2 d1.
        apply_zone_migrations True [ODict legacy_zone] (PRef 0) = (h1, Inr r1)
      \<and> apply_zone_migrations True h1 r1 = (h2, Inr r2)
      \<and> dict_at h2 r1 = Some d1 \<and> dict_at h2 r2 = Some d1)"
  using zone_migration_idempotent [OF legacy_zone_store, of True] legacy_zone_store by simp


section \<open>Item-state migration\<close>

text \<open>
  C10. For every item state that is already a dict, \<^verbatim>\<open>apply_item_state_migrations\<close>
  succeeds and returns a dict with exactly the entries of its input: no key is added and
  none is removed, the legacy keys included. The witness is a state that carries
  \<^verbatim>\<open>top\<close>, \<^verbatim>\<open>left\<close> and \<^verbatim>\<open>absolute\<close>.
\<close>

theorem item_state_migration_identity_on_dict:
  assumes "dict_at h item_state = Some d"
  shows "\<exists>h' r. apply_item_state_migrations lc h item_state = (h', Inr r) \<and> dict_at h' r = Some d"
  using apply_item_state_migrations_dict [OF assms, of lc] dict_at_last by auto

theorem item_state_migration_identity_on_dict_witness:
  "dict_at [ODict legacy_item_state] (PRef 0) = Some legacy_item_state
   \<and> (\<exists>h' r. apply_item_state_migrations True [ODict legacy_item_state] (PRef 0) = (h', Inr r)
        \<and> dict_at h' r = Some legacy_item_state)"
  using item_state_migration_identity_on_dict [OF legacy_item_state_store, of True]
    legacy_item_state_store
  by simp

text \<open>
  On an item state that is already a dict the pipeline is idempotent: both runs return a
  copy with the input's entries, read here in the final store.
\<close>

lemma item_state_migration_idempotent_on_dict:
  assumes "dict_at h item_state = Some d"
  shows "\<exists>h1 r1 h2 r2 d1.
     apply_item_state_migrations lc h item_state = (h1, Inr r1)
   \<and> apply_item_state_migrations lc h1 r1 = (h2, Inr r2)
   \<and> dict_at h2 r1 = Some d1 \<and> dict_at h2 r2 = Some d1"
proof -
  let ?h1 = "h @ [ODict d]"
  let ?r1 = "PRef (length h)"
  have first: "apply_item_state_migrations lc h item_state = (?h1, Inr ?r1)"
    using assms by (rule apply_item_state_migrations_dict)
  have at1: "dict_at ?h1 ?r1 = Some d"
    by (rule dict_at_last)
  have second: "apply_item_state_migrations lc ?h1 ?r1 = (?h1 @ [ODict d], Inr (PRef (length ?h1)))"
    using at1 by (rule apply_item_state_migrations_dict)
  have "dict_at (?h1 @ [ODict d]) ?r1 = Some d"
    using at1 by (rule dict_at_append)
  moreover have "dict_at (?h1 @ [ODict d]) (PRef (length ?h1)) = Some d"
    by (rule dict_at_last)
  ultimately show ?thesis
    using first second by blast
qed

lemma item_state_migration_idempotent_on_dict_example:
  "dict_at [ODict legacy_item_state] (PRef 0) = Some legacy_item_state
   \<and> (\<exists>h1 r1 h2 r2 d1.
        apply_item_state_migrations True [ODict legacy_item_state] (PRef 0) = (h1, Inr r1)
      \<and> apply_item_state_migrations True h1 r1 = (h2, Inr r2)
      \<and> dict_at h2 r1 = Some d1 \<and> dict_at h2 r2 = Some d1)"
  using item_state_migration_idempotent_on_dict [OF legacy_item_state_store, of True]
    legacy_item_state_store
  by simp

text \<open>
  C1. The docstring of \<^verbatim>\<open>_item_state_v2_to_v2p1\<close> gives
  \<^verbatim>\<open>{'zone': 'Zone', 'correct': True, 'top': '100px', 'left': '120px', 'absolute': True}\<close>
  as input and \<^verbatim>\<open>{'zone': 'Zone', 'correct': True}\<close> as output. On that input the
  pipeline returns a dict that still has \<^verbatim>\<open>top\<close>, \<^verbatim>\<open>left\<close> and \<^verbatim>\<open>absolute\<close>: the loop
  body \<^verbatim>\<open>del[attribute]\<close> unbinds the loop variable instead of deleting the key from
  \<^verbatim>\<open>item\<close>.
\<close>

theorem item_state_migration_keeps_legacy_fields:
  "\<exists>h' r d'.
     apply_item_state_migrations lc [ODict legacy_item_state] (PRef 0) = (h', Inr r)
   \<and> dict_at h' r = Some d'
   \<and> d' ''top'' = Some (PStr ''100px'') \<and> d' ''left'' = Some (PStr ''120px'')
   \<and> d' ''absolute'' = Some (PBool True)"
proof -
  have "apply_item_state_migrations lc [ODict legacy_item_state] (PRef 0) =
      ([ODict legacy_item_state] @ [ODict legacy_item_state], Inr (PRef (length [ODict legacy_item_state])))"
    using legacy_item_state_store by (rule apply_item_state_migrations_dict)
  moreover have "dict_at ([ODict legacy_item_state] @ [ODict legacy_item_state])
      (PRef (length [ODict legacy_item_state])) = Some legacy_item_state"
    by (rule dict_at_last)
  moreover have "legacy_item_state ''top'' = Some (PStr ''100px'')
      \<and> legacy_item_state ''left'' = Some (PStr ''120px'')
      \<and> legacy_item_state ''absolute'' = Some (PBool True)"
    by (simp add: legacy_item_state_def)
  ultimately show ?thesis by blast
qed

text \<open>
  A positional pair through the pipeline: a tuple stops at \<^verbatim>\<open>obj.copy()\<close> on every
  interpreter; a list is copied and converted where lists have \<^verbatim>\<open>copy\<close>.
\<close>

lemma apply_item_state_migrations_tuple:
  assumes "a < length h" "h ! a = OTuple xs"
  shows "apply_item_state_migrations lc h (PRef a) = (h, Inl AttributeError)"
  using assms
  by (simp add: apply_item_state_migrations_def apply_migration_def then_py_def py_copy_def
      heap_lookup_def)

lemma apply_item_state_migrations_list_pair:
  assumes "a < length h" "h ! a = OList [x, y]"
  shows "apply_item_state_migrations True h (PRef a) =
     (h @ [OList [x, y], ODict [''top'' \<mapsto> x, ''left'' \<mapsto> y]],
      Inr (PRef (Suc (length h))))"
  using assms
  by (simp add: apply_item_state_migrations_def apply_migration_def then_py_def py_copy_def
      heap_lookup_def heap_alloc_def item_state_v1_to_v1p5_def py_isinstance_dict_def
      py_getitem_def item_state_v1p5_to_v2_def item_state_v2_to_v2p1_returns_item)

text \<open>
  C6. Item-state migration is meant to be idempotent on every item-state record, the
  legacy pair included: by the docstring of \<^verbatim>\<open>_item_state_v1_to_v1p5\<close> the pair
  \<^verbatim>\<open>('100px', '120px')\<close> migrates to a dict, and a dict migrates to itself. On that
  pair the code has no migrated state to migrate again or to compare:
  \<^verbatim>\<open>apply_item_state_migrations\<close> raises AttributeError at \<^verbatim>\<open>obj.copy()\<close>, for the
  tuple on every interpreter and for the list where lists have no \<^verbatim>\<open>copy\<close>. So there
  are no two successful runs whose results are equal.
\<close>

theorem item_state_migration_not_idempotent_on_pair:
  "snd (apply_item_state_migrations lc [OTuple legacy_pair] (PRef 0)) = Inl AttributeError
   \<and> \<not> (\<exists>h1 r1 h2 r2 d1.
          apply_item_state_migrations lc [OTuple legacy_pair] (PRef 0) = (h1, Inr r1)
        \<and> apply_item_state_migrations lc h1 r1 = (h2, Inr r2)
        \<and> dict_at h2 r1 = Some d1 \<and> dict_at h2 r2 = Some d1)
   \<and> snd (apply_item_state_migrations False [OList legacy_pair] (PRef 0)) = Inl AttributeError
   \<and> \<not> (\<exists>h1 r1 h2 r2 d1.
          apply_item_state_migrations False [OList legacy_pair] (PRef 0) = (h1, Inr r1)
        \<and> apply_item_state_migrations False h1 r1 = (h2, Inr r2)
        \<and> dict_at h2 r1 = Some d1 \<and> dict_at h2 r2 = Some d1)"
proof -
  have tuple: "apply_item_state_migrations lc [OTuple legacy_pair] (PRef 0) =
      ([OTuple legacy_pair], Inl AttributeError)"
    by (rule apply_item_state_migrations_tuple) simp_all
  have list: "apply_item_state_migrations False [OList legacy_pair] (PRef 0) =
      ([OList legacy_pair], Inl AttributeError)"
    by (simp add: apply_item_state_migrations_def apply_migration_def then_py_def py_copy_def
        heap_lookup_def)
  show ?thesis
    by (simp add: tuple list)
qed

text \<open>
  C7. The docstring of \<^verbatim>\<open>_item_state_v1_to_v1p5\<close> gives the tuple
  \<^verbatim>\<open>('100px', '120px')\<close> as input and \<^verbatim>\<open>{'top': '100px', 'left': '120px'}\<close> as output,
  and the step alone does that. The pipeline never reaches the step with it:
  \<^verbatim>\<open>_apply_migration\<close> first calls \<^verbatim>\<open>obj.copy()\<close>, which a tuple does not have on any
  interpreter and a list does not have on Python 2, so the call raises AttributeError
  and leaves the store as it was.
\<close>

theorem item_state_migration_pair_raises:
  "apply_item_state_migrations lc [OTuple legacy_pair] (PRef 0) =
     ([OTuple legacy_pair], Inl AttributeError)
   \<and> apply_item_state_migrations False [OList legacy_pair] (PRef 0) =
     ([OList legacy_pair], Inl AttributeError)
   \<and> item_state_v1_to_v1p5 [OTuple legacy_pair] (PRef 0) =
     ([OTuple legacy_pair, ODict [''top'' \<mapsto> PStr ''100px'', ''left'' \<mapsto> PStr ''120px'']],
      Inr (PRef 1))"
  by (simp add: apply_item_state_migrations_def apply_migration_def then_py_def py_copy_def
      heap_lookup_def item_state_v1_to_v1p5_def py_isinstance_dict_def py_getitem_def
      heap_alloc_def legacy_pair_def)


section \<open>The caller's store\<close>

lemma then_py_frame:
  assumes "take n (fst r) = t"
    and "\<And>h x. take n h = t \<Longrightarrow> take n (fst (f h x)) = t"
  shows "take n (fst (then_py r f)) = t"
  using assms by (cases r) (auto simp: then_py_def split: sum.splits)

lemma then_py_value:
  assumes "snd (then_py r f) = Inr v"
  shows "\<exists>h x. snd (f h x) = Inr v"
  using assms by (cases r) (auto simp: then_py_def split: sum.splits)

lemma py_setitem_frame: "n \<le> a \<Longrightarrow> take n (fst (py_setitem h (PRef a) key v)) = take n h"
  by (simp add: py_setitem_def heap_store_def split: option.splits pyobj.splits)

lemma py_pop_frame: "n \<le> a \<Longrightarrow> take n (fst (py_pop h (PRef a) key)) = take n h"
  by (simp add: py_pop_def heap_store_def split: option.splits pyobj.splits)

text \<open>
  A zone migration working on an object at address \<open>a\<close> leaves every object below \<open>a\<close>
  as it was, whether it returns or raises, and returns the reference it was given.
\<close>

lemma zone_v1_to_v2_frame:
  assumes "n \<le> a" "take n h = t"
  shows "take n (fst (zone_v1_to_v2 h (PRef a))) = t"
  unfolding zone_v1_to_v2_def
  by (intro then_py_frame) (auto simp: assms py_setitem_frame py_pop_frame intro!: then_py_frame)

lemma zone_v2_to_v2p1_frame:
  assumes "n \<le> a" "take n h = t"
  shows "take n (fst (zone_v2_to_v2p1 h (PRef a))) = t"
  unfolding zone_v2_to_v2p1_def
  by (intro then_py_frame) (auto simp: assms py_setitem_frame)

lemma zone_v1_to_v2_value: "snd (zone_v1_to_v2 h zone) = Inr v \<Longrightarrow> v = zone"
  unfolding zone_v1_to_v2_def
  by (auto dest!: then_py_value)

lemma take_length_le: "take n h = t \<Longrightarrow> length t = n \<Longrightarrow> n \<le> length h"
  by (metis length_take min.cobounded1 min.commute)

text \<open>\<^verbatim>\<open>_item_state_v1_to_v1p5\<close> writes to no existing object: it only allocates.\<close>

lemma item_state_v1_to_v1p5_frame:
  assumes "take n h = t" "length t = n"
  shows "take n (fst (item_state_v1_to_v1p5 h item)) = t"
  using assms take_length_le [OF assms]
  by (simp add: item_state_v1_to_v1p5_def then_py_def heap_alloc_def split: sum.splits)

lemma run_zone_migrations_frame:
  assumes "n \<le> a" "take n h = t"
  shows "take n (fst (run_migrations h (PRef a) [zone_v1_to_v2, zone_v2_to_v2p1])) = t"
proof (cases "zone_v1_to_v2 h (PRef a)")
  case (Pair h1 r1)
  then have t1: "take n h1 = t"
    using zone_v1_to_v2_frame [OF assms] by simp
  show ?thesis
  proof (cases r1)
    case (Inl e)
    with Pair t1 show ?thesis by simp
  next
    case (Inr v)
    then have v: "v = PRef a"
      using Pair zone_v1_to_v2_value [of h "PRef a" v] by simp
    obtain h2 r2 where 2: "zone_v2_to_v2p1 h1 (PRef a) = (h2, r2)"
      by (cases "zone_v2_to_v2p1 h1 (PRef a)")
    then have "take n h2 = t"
      using zone_v2_to_v2p1_frame [OF assms(1) t1] by simp
    then show ?thesis
      using Pair Inr v 2 by (simp split: sum.splits)
  qed
qed

lemma run_item_state_migrations_frame:
  assumes "take n h = t" "length t = n"
  shows "take n (fst (run_migrations h item
            [item_state_v1_to_v1p5, item_state_v1p5_to_v2, item_state_v2_to_v2p1])) = t"
  using item_state_v1_to_v1p5_frame [OF assms, of item]
  by (cases "item_state_v1_to_v1p5 h item")
     (simp add: item_state_v1p5_to_v2_def item_state_v2_to_v2p1_returns_item split: sum.splits)

text \<open>\<^verbatim>\<open>obj.copy()\<close> either raises in the store it was given or appends one object to it.\<close>

lemma py_copy_result:
  "(\<exists>e. py_copy lc h obj = (h, Inl e))
   \<or> (\<exists>ob. py_copy lc h obj = (h @ [ob], Inr (PRef (length h))))"
  by (simp add: py_copy_def heap_alloc_def split: pyval.splits option.splits pyobj.splits)

lemma apply_zone_migrations_frame:
  "take (length h) (fst (apply_zone_migrations lc h zone)) = h"
proof -
  consider e where "py_copy lc h zone = (h, Inl e)"
    | ob where "py_copy lc h zone = (h @ [ob], Inr (PRef (length h)))"
    using py_copy_result by blast
  then show ?thesis
  proof cases
    case 1
    then show ?thesis
      by (simp add: apply_zone_migrations_def apply_migration_def then_py_def)
  next
    case 2
    have "take (length h) (fst (run_migrations (h @ [ob]) (PRef (length h))
            [zone_v1_to_v2, zone_v2_to_v2p1])) = h"
      by (rule run_zone_migrations_frame) simp_all
    with 2 show ?thesis
      by (simp add: apply_zone_migrations_def apply_migration_def then_py_def)
  qed
qed

lemma apply_item_state_migrations_frame:
  "take (length h) (fst (apply_item_state_migrations lc h item)) = h"
proof -
  consider e where "py_copy lc h item = (h, Inl e)"
    | ob where "py_copy lc h item = (h @ [ob], Inr (PRef (length h)))"
    using py_copy_result by blast
  then show ?thesis
  proof cases
    case 1
    then show ?thesis
      by (simp add: apply_item_state_migrations_def apply_migration_def then_py_def)
  next
    case 2
    have "take (length h) (fst (run_migrations (h @ [ob]) (PRef (length h))
            [item_state_v1_to_v1p5, item_state_v1p5_to_v2, item_state_v2_to_v2p1])) = h"
      by (rule run_item_state_migrations_frame) simp_all
    with 2 show ?thesis
      by (simp add: apply_item_state_migrations_def apply_migration_def then_py_def)
  qed
qed

text \<open>
  C8. Whatever value is passed in, and whether the call returns or raises, every object
  of the caller's store is after \<^verbatim>\<open>apply_zone_migrations\<close> and after
  \<^verbatim>\<open>apply_item_state_migrations\<close> what it was before: the store the call leaves is the
  caller's store followed by the objects the call allocated. The input record is one of
  the caller's objects, and so is everything it refers to.
\<close>

theorem migrations_leave_input_unchanged:
  "take (length h) (fst (apply_zone_migrations lc h zone)) = h
   \<and> take (length h) (fst (apply_item_state_migrations lc h item_state)) = h"
  using apply_zone_migrations_frame apply_item_state_migrations_frame by simp

theorem migrations_leave_input_unchanged_witness:
  "take 1 (fst (apply_zone_migrations True [ODict legacy_zone] (PRef 0))) = [ODict legacy_zone]
   \<and> take 1 (fst (apply_item_state_migrations True [ODict legacy_item_state] (PRef 0))) =
       [ODict legacy_item_state]"
  using migrations_leave_input_unchanged [of "[ODict legacy_zone]" True "PRef 0"]
    migrations_leave_input_unchanged [of "[ODict legacy_item_state]" True _ "PRef 0"]
  by simp

section \<open>Placement into a zone at capacity\<close>

lemma find_zone_uid: "find_zone e z = Some c \<Longrightarrow> uid c = z"
  by (auto simp: find_zone_def find_Some_iff)

lemma full_zone_item: "find_item full_zone_engine 2 = Some \<lparr>item_id = 2, validZoneIds = [''z'']\<rparr>"
  by (simp add: find_item_def full_zone_engine_def)

lemma full_zone_zone:
  "find_zone full_zone_engine ''z'' = Some \<lparr>uid = ''z'', title = ''Z'', maxItems = Some 2\<rparr>"
  by (simp add: find_zone_def full_zone_engine_def)

lemma full_zone_occupants: "length (occupants full_zone_engine ''z'' 2) = 2"
  by (simp add: occupants_def full_zone_engine_def)

text \<open>
  C2. For a known item and a zone whose \<^verbatim>\<open>maxItems\<close> is a finite capacity \<open>m\<close>, with \<open>m\<close>
  items other than the moving one already placed in the zone (or more), the command that
  a pointer drop issues and the command that the keyboard action issues have the same
  outcome: the controller is back in \<^verbatim>\<open>Idle\<close>, the verdict is a rejection with reason
  \<^verbatim>\<open>CapacityExceeded\<close>, and the engine's state is the old one with the moving item in
  the bank.
\<close>

theorem place_item_at_capacity_rejected:
  assumes "find_item e itemId = Some it" and "find_zone e z = Some c"
    and "maxItems c = Some m" and "0 < m" and "m \<le> length (occupants e z itemId)"
  shows "pointer_drop (Dragging itemId) e (Some z) =
           (Idle, Some (Inr (e\<lparr>item_zone := (item_zone e)(itemId := None)\<rparr>,
                             \<lparr>accepted = False, isCorrect = False, zoneId = None,
                              reasonIfRejected = Some CapacityExceeded\<rparr>)))
       \<and> keyboard_action (Grabbed itemId) e (Some z) =
           (Idle, Some (Inr (e\<lparr>item_zone := (item_zone e)(itemId := None)\<rparr>,
                             \<lparr>accepted = False, isCorrect = False, zoneId = None,
                              reasonIfRejected = Some CapacityExceeded\<rparr>)))
       \<and> item_zone (e\<lparr>item_zone := (item_zone e)(itemId := None)\<rparr>) itemId = None"
proof -
  have "uid c = z"
    using assms(2) by (rule find_zone_uid)
  then have "at_capacity e c itemId"
    using assms(3-5) by (simp add: at_capacity_def)
  then have "placeItem e itemId (Some z) =
      Inr (e\<lparr>item_zone := (item_zone e)(itemId := None)\<rparr>,
           \<lparr>accepted = False, isCorrect = False, zoneId = None,
            reasonIfRejected = Some CapacityExceeded\<rparr>)"
    using assms(1,2) by (simp add: placeItem_def)
  then show ?thesis by simp
qed

theorem place_item_at_capacity_rejected_witness:
  "find_item full_zone_engine 2 = Some \<lparr>item_id = 2, validZoneIds = [''z'']\<rparr>
   \<and> find_zone full_zone_engine ''z'' = Some \<lparr>uid = ''z'', title = ''Z'', maxItems = Some 2\<rparr>
   \<and> (0::nat) < 2 \<and> 2 \<le> length (occupants full_zone_engine ''z'' 2)
   \<and> pointer_drop (Dragging 2) full_zone_engine (Some ''z'') =
       (Idle, Some (Inr (full_zone_engine\<lparr>item_zone := (item_zone full_zone_engine)(2 := None)\<rparr>,
                         \<lparr>accepted = False, isCorrect = False, zoneId = None,
                          reasonIfRejected = Some CapacityExceeded\<rparr>)))
   \<and> keyboard_action (Grabbed 2) full_zone_engine (Some ''z'') =
       (Idle, Some (Inr (full_zone_engine\<lparr>item_zone := (item_zone full_zone_engine)(2 := None)\<rparr>,
                         \<lparr>accepted = False, isCorrect = False, zoneId = None,
                          reasonIfRejected = Some CapacityExceeded\<rparr>)))"
proof -
  have m: "maxItems \<lparr>uid = ''z'', title = ''Z'', maxItems = Some 2\<rparr> = Some 2"
    by simp
  have occ: "2 \<le> length (occupants full_zone_engine ''z'' 2)"
    by (simp add: full_zone_occupants)
  show ?thesis
    using place_item_at_capacity_rejected [OF full_zone_item full_zone_zone m _ occ]
      full_zone_item full_zone_zone occ
    by simp
qed


section \<open>Events of a pick-up and a drop on a correct zone\<close>

lemma top_zone_item: "find_item top_zone_engine 0 = Some \<lparr>item_id = 0, validZoneIds = [''top'']\<rparr>"
  by (simp add: find_item_def top_zone_engine_def)

lemma top_zone_zone:
  "find_zone top_zone_engine ''top'' =
     Some \<lparr>uid = ''top'', title = ''The Top Zone'', maxItems = None\<rparr>"
  by (simp add: find_zone_def top_zone_engine_def)

lemma top_zone_score_before: "score top_zone_engine = 0"
  by (simp add: score_def required_def correctlyPlaced_def top_zone_engine_def)

lemma top_zone_score_after:
  "score (top_zone_engine\<lparr>item_zone := (item_zone top_zone_engine)(0 := Some ''top'')\<rparr>) = 1"
  by (simp add: score_def required_def correctlyPlaced_def top_zone_engine_def)

text \<open>
  C3. For a known item, one of its valid zones and that zone not at capacity: loading,
  picking the item up, dropping it on the zone and closing the feedback publishes
  exactly \<^verbatim>\<open>loaded\<close>, \<^verbatim>\<open>item.picked_up\<close>, \<^verbatim>\<open>grade\<close> (present exactly when the score
  changed), \<^verbatim>\<open>item.dropped\<close> with \<^verbatim>\<open>is_correct\<close> true, the item, the zone's title and
  uid, \<^verbatim>\<open>feedback.opened\<close> with the message and its truncated flag, and
  \<^verbatim>\<open>feedback.closed\<close> with its manually flag, in this order and nothing else.
\<close>

theorem events_of_pick_up_and_correct_drop:
  assumes "find_item e itemId = Some it" and "find_zone e z = Some c"
    and "z \<in> set (validZoneIds it)" and "\<not> at_capacity e c itemId"
  shows "\<exists>s'.
     drop_on_zone (pick_up (load_session e threshold) itemId) itemId z content = Inr s'
   \<and> published (close_feedback s' manually) =
       [Loaded, ItemPickedUp itemId]
       @ (if score (e\<lparr>item_zone := (item_zone e)(itemId := Some z)\<rparr>) \<noteq> score e
          then [Grade (score (e\<lparr>item_zone := (item_zone e)(itemId := Some z)\<rparr>))] else [])
       @ [ItemDropped True itemId (title c) z,
          FeedbackOpened content (threshold < length content),
          FeedbackClosed manually]"
proof -
  have uid: "uid c = z"
    using assms(2) by (rule find_zone_uid)
  have place: "placeItem e itemId (Some z) =
      Inr (e\<lparr>item_zone := (item_zone e)(itemId := Some z)\<rparr>,
           \<lparr>accepted = True, isCorrect = True, zoneId = Some z, reasonIfRejected = None\<rparr>)"
    using assms by (simp add: placeItem_def)
  show ?thesis
    using assms(2) uid place
    by (simp add: drop_on_zone_def pick_up_def load_session_def close_feedback_def)
qed

theorem events_of_pick_up_and_correct_drop_witness:
  "find_item top_zone_engine 0 = Some \<lparr>item_id = 0, validZoneIds = [''top'']\<rparr>
   \<and> find_zone top_zone_engine ''top'' =
       Some \<lparr>uid = ''top'', title = ''The Top Zone'', maxItems = None\<rparr>
   \<and> \<not> at_capacity top_zone_engine \<lparr>uid = ''top'', title = ''The Top Zone'', maxItems = None\<rparr> 0
   \<and> (\<exists>s'.
        drop_on_zone (pick_up (load_session top_zone_engine 80) 0) 0 ''top'' ''Correct!'' = Inr s'
      \<and> published (close_feedback s' False) =
          [Loaded, ItemPickedUp 0, Grade 1, ItemDropped True 0 ''The Top Zone'' ''top'',
           FeedbackOpened ''Correct!'' False, FeedbackClosed False])"
proof -
  have valid: "''top'' \<in> set (validZoneIds \<lparr>item_id = 0, validZoneIds = [''top'']\<rparr>)"
    by simp
  have room: "\<not> at_capacity top_zone_engine
      \<lparr>uid = ''top'', title = ''The Top Zone'', maxItems = None\<rparr> 0"
    by (simp add: at_capacity_def)
  show ?thesis
    using events_of_pick_up_and_correct_drop
        [OF top_zone_item top_zone_zone valid room, of 80 "''Correct!''" False]
      top_zone_item top_zone_zone room
    by (simp add: top_zone_score_before top_zone_score_after)
qed


end
